theory Spec2Isabelle
  imports Complex_Main "HOL-Library.AList"
begin

section \<open>The decorated halving pipeline of \<^verbatim>\<open>index.js\<close> / \<^verbatim>\<open>index.ts\<close>\<close>

text \<open>
  The executable part of the repository is
  \<^verbatim>\<open>
  function sealed(constructor) {
      Object.seal(constructor);
      Object.seal(constructor.prototype);
  }
  function square(target, propertyKey, originalMethod) {
      var original = originalMethod.value;
      originalMethod.value = function () {
          var args = [];
          for (var _i = 0; _i < arguments.length; _i++) { args[_i] = arguments[_i]; }
          return original(args.flat().map(function (n) { return Math.pow(n, 2); }));
      };
  }
  var Ryazi = (function () {
      function Ryazi() { }
      Ryazi.modifyNumbers = function (numbers) {
          return numbers.map(function (n) { return n / 2; });
      };
      __decorate([ square ], Ryazi, "modifyNumbers", null);
      Ryazi = __decorate([ sealed ], Ryazi);
      return Ryazi;
  }());
  console.log(Ryazi.modifyNumbers([2, 3, 4]));
  \<close>
  together with the helper \<^verbatim>\<open>__decorate\<close> at the top of the emitted file. The
  TypeScript source is the same class with \<^verbatim>\<open>@square\<close> on the static method and
  with \<^verbatim>\<open>// @sealed\<close> commented out.

  Modelling decisions.
  \<^item> A JavaScript \<^verbatim>\<open>number\<close> is an IEEE 754 double: a finite value, an infinity or
    NaN. The two operations of the program, \<^verbatim>\<open>Math.pow(n, 2)\<close> and \<^verbatim>\<open>n / 2\<close>,
    round their exact result to the nearest double.
  \<^item> Arrays are mutable heap objects. They live in a store, a list of arrays indexed by
    address; constructing an array appends it to the store. An argument of a call is a
    number or a reference to an array of numbers (the parameter type
    \<^verbatim>\<open>Array<number>\<close> of the source).
  \<^item> A call returns a value or raises; raising is the left summand of the result. The
    store after the call is returned beside it.
  \<^item> The class and its prototype are objects with own properties (value and the three
    attributes) and an extensible flag, kept in a second heap.
\<close>

subsection \<open>Numbers\<close>

text \<open>
  A finite number is given by its value, a real that is a double (\<open>is_double\<close> below).
  The sign of zero is not kept: \<^verbatim>\<open>Math.pow\<close> with exponent 2 returns \<open>+0\<close> for
  either zero, so no result of the decorated operation is \<open>-0\<close>.
\<close>

datatype number = Finite real | PosInfinity | NegInfinity | NaN

text \<open>Rounding a real to the nearest integer, a tie to the even one.\<close>

definition round_half_even :: "real \<Rightarrow> int" where
  "round_half_even r =
     (if r - of_int \<lfloor>r\<rfloor> < 1 / 2 then \<lfloor>r\<rfloor>
      else if 1 / 2 < r - of_int \<lfloor>r\<rfloor> then \<lfloor>r\<rfloor> + 1
      else if even \<lfloor>r\<rfloor> then \<lfloor>r\<rfloor> else \<lfloor>r\<rfloor> + 1)"

text \<open>
  The binade of \<open>x\<close>: the exponent \<open>e\<close> with \<open>2^e \<le> |x| < 2^(e+1)\<close>, not below
  \<open>-1022\<close> (the exponent of the subnormal numbers) and not above \<open>1024\<close>. It is found
  by counting up from \<open>-1022\<close>.
\<close>

fun binade_from :: "nat \<Rightarrow> int \<Rightarrow> real \<Rightarrow> int" where
  "binade_from 0 e m = e"
| "binade_from (Suc k) e m =
     (if 2 powi (e + 1) \<le> m then binade_from k (e + 1) m else e)"

definition binade :: "real \<Rightarrow> int" where
  "binade x = binade_from 2046 (- 1022) \<bar>x\<bar>"

text \<open>
  Rounding to the nearest double, ties to even (the rounding of every IEEE operation
  in JavaScript). The doubles of the binade \<open>e\<close> are the multiples of \<open>2^(e - 52)\<close>;
  a rounded value of magnitude \<open>2^1024\<close> or more is an infinity.
\<close>

definition round_double :: "real \<Rightarrow> number" where
  "round_double x =
     (if 2 powi 1024 \<le>
           \<bar>real_of_int (round_half_even (x / 2 powi (binade x - 52))) * 2 powi (binade x - 52)\<bar>
      then (if 0 < x then PosInfinity else NegInfinity)
      else Finite (real_of_int (round_half_even (x / 2 powi (binade x - 52)))
                     * 2 powi (binade x - 52)))"

text \<open>
  A real is (the value of) a double when rounding leaves it as it is. The finite
  numbers of a program are doubles: a numeric literal denotes the double nearest to
  what it reads (\<^verbatim>\<open>0.1\<close> is \<open>number_literal (1 / 10)\<close>, which is not
  \<open>Finite (1 / 10)\<close>), and every operation rounds.
\<close>

definition is_double :: "real \<Rightarrow> bool" where
  "is_double x = (round_double x = Finite x)"

definition number_literal :: "real \<Rightarrow> number" where
  "number_literal r = round_double r"

text \<open>
  \<^verbatim>\<open>Math.pow(n, 2)\<close> (\<^verbatim>\<open>n ** 2\<close> in the TypeScript source), taken as the correctly
  rounded square, which is what \<^verbatim>\<open>n * n\<close> is. ECMAScript leaves the last bit of
  \<^verbatim>\<open>Math.pow\<close> to the implementation.
\<close>

fun Math_pow_2 :: "number \<Rightarrow> number" where
  "Math_pow_2 (Finite x) = round_double (x * x)"
| "Math_pow_2 PosInfinity = PosInfinity"
| "Math_pow_2 NegInfinity = PosInfinity"
| "Math_pow_2 NaN = NaN"

text \<open>\<^verbatim>\<open>n / 2\<close>.\<close>

fun divide_by_2 :: "number \<Rightarrow> number" where
  "divide_by_2 (Finite x) = round_double (x / 2)"
| "divide_by_2 PosInfinity = PosInfinity"
| "divide_by_2 NegInfinity = NegInfinity"
| "divide_by_2 NaN = NaN"

text \<open>The comparison \<^verbatim>\<open>x <= y\<close>: false when either side is NaN.\<close>

fun number_le :: "number \<Rightarrow> number \<Rightarrow> bool" where
  "number_le NaN y = False"
| "number_le x NaN = False"
| "number_le NegInfinity y = True"
| "number_le x PosInfinity = True"
| "number_le (Finite x) (Finite y) = (x \<le> y)"
| "number_le x y = False"

subsection \<open>Values, errors, the array store\<close>

type_synonym addr = nat

datatype jsval = Number number | ArrayRef addr

text \<open>
  \<open>TypeError\<close> is the JavaScript exception. \<open>InvalidReference\<close> is no JavaScript
  behaviour: it is what the model answers when it is handed an address that was never
  allocated, instead of reading outside the store.
\<close>

datatype error = TypeError | InvalidReference

type_synonym store = "number list list"

type_synonym outcome = "(error + jsval) \<times> store"

type_synonym jsfunction = "store \<Rightarrow> jsval list \<Rightarrow> outcome"

definition alloc :: "store \<Rightarrow> number list \<Rightarrow> addr \<times> store" where
  "alloc st xs = (length st, st @ [xs])"

text \<open>
  \<^verbatim>\<open>xs.map(f)\<close> for a callback \<open>f\<close> from numbers to numbers: a new array holding
  \<open>f\<close> of every element, in order; \<open>xs\<close> itself is only read.
\<close>

definition array_map :: "(number \<Rightarrow> number) \<Rightarrow> store \<Rightarrow> addr \<Rightarrow> (error + addr) \<times> store" where
  "array_map f st a =
     (if a < length st
      then (case alloc st (map f (st ! a)) of (r, st') \<Rightarrow> (Inr r, st'))
      else (Inl InvalidReference, st))"

text \<open>
  \<^verbatim>\<open>args.flat()\<close>, depth one, over the collected arguments: an argument that is an
  array contributes its elements, any other argument contributes itself. The result is
  a new array.
\<close>

fun flat :: "store \<Rightarrow> jsval list \<Rightarrow> error + number list" where
  "flat st [] = Inr []"
| "flat st (Number x # vs) =
     (case flat st vs of Inl e \<Rightarrow> Inl e | Inr ys \<Rightarrow> Inr (x # ys))"
| "flat st (ArrayRef a # vs) =
     (if a < length st
      then (case flat st vs of Inl e \<Rightarrow> Inl e | Inr ys \<Rightarrow> Inr (st ! a @ ys))
      else Inl InvalidReference)"

definition args_flat :: "store \<Rightarrow> jsval list \<Rightarrow> (error + addr) \<times> store" where
  "args_flat st args =
     (case flat st args of
        Inl e \<Rightarrow> (Inl e, st)
      | Inr ys \<Rightarrow> (case alloc st ys of (r, st') \<Rightarrow> (Inr r, st')))"

subsection \<open>The static method and the member decorator\<close>

text \<open>
  \<^verbatim>\<open>function (numbers) { return numbers.map(function (n) { return n / 2; }); }\<close>.
  \<open>numbers\<close> is the first argument; with no argument it is \<open>undefined\<close>, and reading
  \<open>.map\<close> of \<open>undefined\<close> raises; a number has no \<open>.map\<close>, and calling
  \<open>undefined\<close> raises.
\<close>

definition modifyNumbers :: jsfunction where
  "modifyNumbers st args =
     (case args of
        [] \<Rightarrow> (Inl TypeError, st)
      | Number x # _ \<Rightarrow> (Inl TypeError, st)
      | ArrayRef a # _ \<Rightarrow>
          (case array_map divide_by_2 st a of
             (Inl e, st') \<Rightarrow> (Inl e, st')
           | (Inr r, st') \<Rightarrow> (Inr (ArrayRef r), st')))"

text \<open>What a property of an object can hold.\<close>

datatype pvalue =
    VUndefined
  | VNull
  | VNumber number
  | VString string
  | VObject addr
  | VFunction jsfunction

text \<open>A data property: its value and its attributes. It is also the descriptor object
  that \<^verbatim>\<open>Object.getOwnPropertyDescriptor\<close> returns.\<close>

record property =
  val :: pvalue
  writable :: bool
  enumerable :: bool
  configurable :: bool

text \<open>Calling a value: only a function can be called.\<close>

definition call_value :: "pvalue \<Rightarrow> jsfunction" where
  "call_value f st args =
     (case f of VFunction g \<Rightarrow> g st args | _ \<Rightarrow> (Inl TypeError, st))"

text \<open>
  The function that \<open>square\<close> stores in the descriptor. \<open>original\<close> is the captured
  \<^verbatim>\<open>originalMethod.value\<close>. The rest array \<open>args\<close> is the list of arguments;
  \<open>.flat()\<close> and \<open>.map(...)\<close> each construct an array; \<open>original\<close> is called with the
  squared array as its only argument.
\<close>

definition square_wrapper :: "pvalue \<Rightarrow> jsfunction" where
  "square_wrapper original st args =
     (case args_flat st args of
        (Inl e, st1) \<Rightarrow> (Inl e, st1)
      | (Inr f, st1) \<Rightarrow>
          (case array_map Math_pow_2 st1 f of
             (Inl e, st2) \<Rightarrow> (Inl e, st2)
           | (Inr m, st2) \<Rightarrow> call_value original st2 [ArrayRef m]))"

text \<open>
  A member decorator is called as \<open>d(target, key, r)\<close> with the descriptor \<open>r\<close>
  (\<open>None\<close> when the property does not exist) and may change \<open>r\<close> in place. The model
  returns what the call returned (\<open>None\<close> for \<open>undefined\<close>) and \<open>r\<close> as it is after
  the call.
\<close>

type_synonym member_decorator =
  "addr \<Rightarrow> string \<Rightarrow> property option \<Rightarrow> error + (property option \<times> property option)"

definition square :: member_decorator where
  "square target propertyKey originalMethod =
     (case originalMethod of
        None \<Rightarrow> Inl TypeError
      | Some d \<Rightarrow> Inr (None, Some (d\<lparr>val := VFunction (square_wrapper (val d))\<rparr>)))"

subsection \<open>Objects, \<^verbatim>\<open>Object.seal\<close>, property access\<close>

text \<open>
  An ordinary object: its own properties in creation order and its extensible flag.
  The object heap is a list indexed by address. Inherited properties (those of
  \<^verbatim>\<open>Function.prototype\<close> and \<^verbatim>\<open>Object.prototype\<close>) and accessor properties are
  not modelled: the program defines none.
\<close>

record jsobject =
  props :: "(string \<times> property) list"
  extensible :: bool

type_synonym objects = "jsobject list"

text \<open>The argument of \<^verbatim>\<open>Object.defineProperty\<close>: each field may be absent.\<close>

record descriptor =
  d_value :: "pvalue option"
  d_writable :: "bool option"
  d_enumerable :: "bool option"
  d_configurable :: "bool option"

definition getOwnProperty :: "jsobject \<Rightarrow> string \<Rightarrow> property option" where
  "getOwnProperty ob k = map_of (props ob) k"

text \<open>
  \<^verbatim>\<open>ValidateAndApplyPropertyDescriptor\<close> of ECMAScript for data descriptors; \<open>None\<close>
  is its answer \<open>false\<close>. A missing property is created only on an extensible object,
  absent fields defaulting to \<open>undefined\<close> and \<open>false\<close>. On a non-configurable
  property, \<open>configurable\<close> cannot become true, \<open>enumerable\<close> cannot change, and when
  the property is also non-writable neither \<open>writable\<close> can become true nor the value
  change (SameValue is taken as equality of the modelled values).
\<close>

definition apply_descriptor :: "property \<Rightarrow> descriptor \<Rightarrow> property" where
  "apply_descriptor p d =
     \<lparr> val = (case d_value d of Some v \<Rightarrow> v | None \<Rightarrow> val p),
       writable = (case d_writable d of Some b \<Rightarrow> b | None \<Rightarrow> writable p),
       enumerable = (case d_enumerable d of Some b \<Rightarrow> b | None \<Rightarrow> enumerable p),
       configurable = (case d_configurable d of Some b \<Rightarrow> b | None \<Rightarrow> configurable p) \<rparr>"

definition default_property :: property where
  "default_property =
     \<lparr> val = VUndefined, writable = False, enumerable = False, configurable = False \<rparr>"

definition rejects :: "property \<Rightarrow> descriptor \<Rightarrow> bool" where
  "rejects cur d =
     (if configurable cur then False
      else if d_configurable d = Some True then True
      else if d_enumerable d \<noteq> None \<and> d_enumerable d \<noteq> Some (enumerable cur) then True
      else if writable cur then False
      else if d_writable d = Some True then True
      else d_value d \<noteq> None \<and> d_value d \<noteq> Some (val cur))"

definition validateAndApply :: "jsobject \<Rightarrow> string \<Rightarrow> descriptor \<Rightarrow> jsobject option" where
  "validateAndApply ob k d =
     (case getOwnProperty ob k of
        None \<Rightarrow>
          (if extensible ob
           then Some (ob\<lparr>props := AList.update k (apply_descriptor default_property d) (props ob)\<rparr>)
           else None)
      | Some cur \<Rightarrow>
          (if rejects cur d then None
           else Some (ob\<lparr>props := AList.update k (apply_descriptor cur d) (props ob)\<rparr>)))"

text \<open>
  \<^verbatim>\<open>OrdinarySet\<close> without inherited properties: the internal method behind an
  assignment. It answers \<open>false\<close> (\<open>None\<close>) on a non-writable property and on a
  missing property of a non-extensible object, and changes nothing then.
\<close>

definition ordinarySet :: "jsobject \<Rightarrow> string \<Rightarrow> pvalue \<Rightarrow> jsobject option" where
  "ordinarySet ob k v =
     (case getOwnProperty ob k of
        Some cur \<Rightarrow>
          (if writable cur
           then Some (ob\<lparr>props := AList.update k (cur\<lparr>val := v\<rparr>) (props ob)\<rparr>)
           else None)
      | None \<Rightarrow>
          (if extensible ob
           then Some (ob\<lparr>props := AList.update k
                  \<lparr> val = v, writable = True, enumerable = True, configurable = True \<rparr> (props ob)\<rparr>)
           else None))"

text \<open>
  \<^verbatim>\<open>OrdinaryDelete\<close>: a missing property is a success, a configurable one is
  removed, a non-configurable one makes the deletion answer \<open>false\<close>.
\<close>

definition ordinaryDelete :: "jsobject \<Rightarrow> string \<Rightarrow> jsobject option" where
  "ordinaryDelete ob k =
     (case getOwnProperty ob k of
        None \<Rightarrow> Some ob
      | Some cur \<Rightarrow>
          (if configurable cur then Some (ob\<lparr>props := AList.delete k (props ob)\<rparr>) else None))"

text \<open>\<^verbatim>\<open>Object.defineProperty(O, k, d)\<close> on an object: a rejected definition raises.\<close>

definition defineProperty :: "jsobject \<Rightarrow> string \<Rightarrow> descriptor \<Rightarrow> error + jsobject" where
  "defineProperty ob k d =
     (case validateAndApply ob k d of None \<Rightarrow> Inl TypeError | Some ob' \<Rightarrow> Inr ob')"

text \<open>
  The assignment \<^verbatim>\<open>O.k = v\<close>. A failed assignment raises in strict-mode code and is
  ignored otherwise.
\<close>

definition assign :: "bool \<Rightarrow> jsobject \<Rightarrow> string \<Rightarrow> pvalue \<Rightarrow> error + jsobject" where
  "assign strict ob k v =
     (case ordinarySet ob k v of
        Some ob' \<Rightarrow> Inr ob'
      | None \<Rightarrow> (if strict then Inl TypeError else Inr ob))"

text \<open>
  \<^verbatim>\<open>Object.seal(O)\<close> on an object: it stops being extensible and every own property
  becomes non-configurable; values and \<open>writable\<close> are kept.
\<close>

definition seal_object :: "jsobject \<Rightarrow> jsobject" where
  "seal_object ob =
     ob\<lparr> props := map (\<lambda>(k, p). (k, p\<lparr>configurable := False\<rparr>)) (props ob),
         extensible := False \<rparr>"

text \<open>The same operations through an address of the object heap.\<close>

definition on_object ::
  "objects \<Rightarrow> addr \<Rightarrow> (jsobject \<Rightarrow> error + jsobject) \<Rightarrow> error + objects" where
  "on_object os a f =
     (if a < length os
      then (case f (os ! a) of Inl e \<Rightarrow> Inl e | Inr ob \<Rightarrow> Inr (os[a := ob]))
      else Inl InvalidReference)"

definition Object_getOwnPropertyDescriptor ::
  "objects \<Rightarrow> addr \<Rightarrow> string \<Rightarrow> error + property option" where
  "Object_getOwnPropertyDescriptor os a k =
     (if a < length os then Inr (getOwnProperty (os ! a) k) else Inl InvalidReference)"

definition Object_defineProperty ::
  "objects \<Rightarrow> addr \<Rightarrow> string \<Rightarrow> descriptor \<Rightarrow> error + objects" where
  "Object_defineProperty os a k d = on_object os a (\<lambda>ob. defineProperty ob k d)"

text \<open>\<^verbatim>\<open>Object.seal(v)\<close>: a value that is not an object is returned as it is.\<close>

definition Object_seal :: "objects \<Rightarrow> pvalue \<Rightarrow> error + objects" where
  "Object_seal os v =
     (case v of
        VObject a \<Rightarrow> on_object os a (\<lambda>ob. Inr (seal_object ob))
      | _ \<Rightarrow> Inr os)"

text \<open>Reading \<^verbatim>\<open>O.k\<close>: the value of the own property, \<open>undefined\<close> without one.\<close>

definition get_property :: "objects \<Rightarrow> addr \<Rightarrow> string \<Rightarrow> error + pvalue" where
  "get_property os a k =
     (if a < length os
      then Inr (case getOwnProperty (os ! a) k of Some p \<Rightarrow> val p | None \<Rightarrow> VUndefined)
      else Inl InvalidReference)"

text \<open>The call \<^verbatim>\<open>O.k(args)\<close>.\<close>

definition call_method :: "objects \<Rightarrow> addr \<Rightarrow> string \<Rightarrow> jsfunction" where
  "call_method os a k st args =
     (case get_property os a k of
        Inl e \<Rightarrow> (Inl e, st)
      | Inr f \<Rightarrow> call_value f st args)"

subsection \<open>The class decorator and \<^verbatim>\<open>__decorate\<close>\<close>

text \<open>
  A class decorator is called as \<open>d(r)\<close> with the constructor; the model returns what
  the call returned (\<open>None\<close> for \<open>undefined\<close>) and the object heap after the call.
\<close>

type_synonym class_decorator = "objects \<Rightarrow> addr \<Rightarrow> error + (addr option \<times> objects)"

definition sealed :: class_decorator where
  "sealed os constructor =
     (case Object_seal os (VObject constructor) of
        Inl e \<Rightarrow> Inl e
      | Inr os1 \<Rightarrow>
          (case get_property os1 constructor ''prototype'' of
             Inl e \<Rightarrow> Inl e
           | Inr p \<Rightarrow>
               (case Object_seal os1 p of
                  Inl e \<Rightarrow> Inl e
                | Inr os2 \<Rightarrow> Inr (None, os2))))"

text \<open>
  \<^verbatim>\<open>__decorate(decorators, target, key, desc)\<close>, on a runtime without
  \<^verbatim>\<open>Reflect.decorate\<close>. With four arguments and \<open>desc === null\<close> (a member) \<open>r\<close>
  starts as the own property descriptor; the decorators run from the last to the
  first, each as \<open>r = d(target, key, r) || r\<close>; a descriptor left in \<open>r\<close> is then
  defined on the target. With two arguments (a class) \<open>r\<close> starts as the target, each
  step is \<open>r = d(r) || r\<close>, and \<open>r\<close> is returned.
\<close>

fun run_member_decorators ::
  "member_decorator list \<Rightarrow> addr \<Rightarrow> string \<Rightarrow> property option \<Rightarrow> error + property option" where
  "run_member_decorators [] target key r = Inr r"
| "run_member_decorators (d # ds) target key r =
     (case d target key r of
        Inl e \<Rightarrow> Inl e
      | Inr (returned, r') \<Rightarrow>
          run_member_decorators ds target key
            (case returned of Some x \<Rightarrow> Some x | None \<Rightarrow> r'))"

definition full_descriptor :: "property \<Rightarrow> descriptor" where
  "full_descriptor p =
     \<lparr> d_value = Some (val p), d_writable = Some (writable p),
       d_enumerable = Some (enumerable p), d_configurable = Some (configurable p) \<rparr>"

definition decorate_member ::
  "member_decorator list \<Rightarrow> objects \<Rightarrow> addr \<Rightarrow> string \<Rightarrow> error + objects" where
  "decorate_member decorators os target key =
     (case Object_getOwnPropertyDescriptor os target key of
        Inl e \<Rightarrow> Inl e
      | Inr desc \<Rightarrow>
          (case run_member_decorators (rev decorators) target key desc of
             Inl e \<Rightarrow> Inl e
           | Inr None \<Rightarrow> Inr os
           | Inr (Some r) \<Rightarrow> Object_defineProperty os target key (full_descriptor r)))"

fun run_class_decorators ::
  "class_decorator list \<Rightarrow> objects \<Rightarrow> addr \<Rightarrow> error + (addr \<times> objects)" where
  "run_class_decorators [] os r = Inr (r, os)"
| "run_class_decorators (d # ds) os r =
     (case d os r of
        Inl e \<Rightarrow> Inl e
      | Inr (returned, os') \<Rightarrow>
          run_class_decorators ds os' (case returned of Some x \<Rightarrow> x | None \<Rightarrow> r))"

definition decorate_class ::
  "class_decorator list \<Rightarrow> objects \<Rightarrow> addr \<Rightarrow> error + (addr \<times> objects)" where
  "decorate_class decorators os target = run_class_decorators (rev decorators) os target"


subsection \<open>The class \<open>Ryazi\<close>\<close>

text \<open>
  The function declaration \<^verbatim>\<open>function Ryazi() { }\<close> in code that is not strict,
  as V8 (Node.js) creates it: the function object with its own \<open>length\<close>, \<open>name\<close>,
  \<open>arguments\<close>, \<open>caller\<close> and \<open>prototype\<close>, and the prototype object with its
  \<open>constructor\<close>.
\<close>

definition declare_function :: "objects \<Rightarrow> string \<Rightarrow> nat \<Rightarrow> addr \<times> objects" where
  "declare_function os name n =
     (let f = length os; p = Suc (length os) in
      (f, os @
        [\<lparr> props =
             [(''length'', \<lparr> val = VNumber (Finite (real n)), writable = False, enumerable = False, configurable = True \<rparr>),
              (''name'', \<lparr> val = VString name, writable = False, enumerable = False, configurable = True \<rparr>),
              (''arguments'', \<lparr> val = VNull, writable = False, enumerable = False, configurable = False \<rparr>),
              (''caller'', \<lparr> val = VNull, writable = False, enumerable = False, configurable = False \<rparr>),
              (''prototype'', \<lparr> val = VObject p, writable = True, enumerable = False, configurable = False \<rparr>)],
            extensible = True \<rparr>,
         \<lparr> props =
             [(''constructor'', \<lparr> val = VObject f, writable = True, enumerable = False, configurable = True \<rparr>)],
            extensible = True \<rparr>]))"

text \<open>
  The two variants in the repository: the emitted JavaScript applies \<open>sealed\<close> to the
  class, the TypeScript source has \<^verbatim>\<open>// @sealed\<close> commented out, which leaves the
  emitted class definition without its last \<^verbatim>\<open>__decorate\<close> line. \<open>Ryazi v\<close> is the
  binding of \<open>Ryazi\<close> and the object heap once the class definition has run.
\<close>

datatype variant = Emitted_JS | Source_TS

definition Ryazi_undecorated :: "error + (addr \<times> objects)" where
  "Ryazi_undecorated =
     (case declare_function [] ''Ryazi'' 0 of
        (c, os0) \<Rightarrow>
          (case on_object os0 c (\<lambda>ob. assign False ob ''modifyNumbers'' (VFunction modifyNumbers)) of
             Inl e \<Rightarrow> Inl e
           | Inr os1 \<Rightarrow> Inr (c, os1)))"

definition Ryazi_squared :: "error + (addr \<times> objects)" where
  "Ryazi_squared =
     (case Ryazi_undecorated of
        Inl e \<Rightarrow> Inl e
      | Inr (c, os1) \<Rightarrow>
          (case decorate_member [square] os1 c ''modifyNumbers'' of
             Inl e \<Rightarrow> Inl e
           | Inr os2 \<Rightarrow> Inr (c, os2)))"

definition Ryazi :: "variant \<Rightarrow> error + (addr \<times> objects)" where
  "Ryazi v =
     (case Ryazi_squared of
        Inl e \<Rightarrow> Inl e
      | Inr (c, os2) \<Rightarrow>
          (case v of
             Emitted_JS \<Rightarrow> decorate_class [sealed] os2 c
           | Source_TS \<Rightarrow> Inr (c, os2)))"

text \<open>
  The call \<^verbatim>\<open>C.k(args)\<close> on a class as the definition left it (a definition that
  raised leaves no class to call), and \<^verbatim>\<open>Ryazi.modifyNumbers(args)\<close>.
\<close>

definition call_static :: "error + (addr \<times> objects) \<Rightarrow> string \<Rightarrow> jsfunction" where
  "call_static cls k st args =
     (case cls of
        Inl e \<Rightarrow> (Inl e, st)
      | Inr (c, os) \<Rightarrow> call_method os c k st args)"

definition Ryazi_modifyNumbers :: "variant \<Rightarrow> jsfunction" where
  "Ryazi_modifyNumbers v = call_static (Ryazi v) ''modifyNumbers''"

text \<open>What a call produced, read back from the store: the elements of the array it
  returned (\<open>None\<close> when it raised, or returned something that is not an array).\<close>

definition returned_array :: "outcome \<Rightarrow> number list option" where
  "returned_array out =
     (case out of
        (Inr (ArrayRef r), st) \<Rightarrow> (if r < length st then Some (st ! r) else None)
      | _ \<Rightarrow> None)"

text \<open>The nested call \<^verbatim>\<open>f(g(...))\<close>: the value of the inner call is the only
  argument of the outer one; an exception of the inner call propagates.\<close>

definition then_call :: "outcome \<Rightarrow> jsfunction \<Rightarrow> outcome" where
  "then_call out f =
     (case out of
        (Inl e, st) \<Rightarrow> (Inl e, st)
      | (Inr w, st) \<Rightarrow> f st [w])"

text \<open>An argument is well formed in a store when it is a number or the address of an
  array of that store; \<open>elements\<close> are the numbers it stands for.\<close>

definition valid_arg :: "store \<Rightarrow> jsval \<Rightarrow> bool" where
  "valid_arg st w = (case w of Number x \<Rightarrow> True | ArrayRef a \<Rightarrow> a < length st)"

definition elements :: "store \<Rightarrow> jsval \<Rightarrow> number list" where
  "elements st w =
     (case w of
        Number x \<Rightarrow> [x]
      | ArrayRef a \<Rightarrow> (if a < length st then st ! a else []))"

subsection \<open>Attempts to change the members of the class\<close>

text \<open>
  Code that runs after the class definition can try to change the members of the
  class object or of its prototype object. Every such operation of the language goes
  through one of three internal methods of the object, which answer \<open>false\<close> when
  they refuse, and differs only in what it does with that answer:
  \<^item> \<^verbatim>\<open>O.k = v\<close> uses \<open>[[Set]]\<close>; in strict-mode code a refusal raises a
    \<open>TypeError\<close>, in other code it is ignored. \<^verbatim>\<open>Reflect.set(O, k, v)\<close> returns
    the answer and never raises.
  \<^item> \<^verbatim>\<open>Object.defineProperty(O, k, d)\<close> uses \<open>[[DefineOwnProperty]]\<close> and raises a
    \<open>TypeError\<close> on a refusal. \<^verbatim>\<open>Reflect.defineProperty(O, k, d)\<close> returns the
    answer and never raises.
  \<^item> \<^verbatim>\<open>delete O.k\<close> uses \<open>[[Delete]]\<close>; in strict-mode code a refusal raises a
    \<open>TypeError\<close>, in other code the expression is \<open>false\<close>.
    \<^verbatim>\<open>Reflect.deleteProperty(O, k)\<close> returns the answer and never raises.
  An attempt is the internal method with its arguments and what a refusal does.
\<close>

datatype on_refusal = Throws | Quiet

datatype attempt =
    Set_property on_refusal string pvalue
  | Define_property on_refusal string descriptor
  | Delete_property on_refusal string

fun refusal :: "attempt \<Rightarrow> on_refusal" where
  "refusal (Set_property f k v) = f"
| "refusal (Define_property f k d) = f"
| "refusal (Delete_property f k) = f"

fun internal_method :: "jsobject \<Rightarrow> attempt \<Rightarrow> jsobject option" where
  "internal_method ob (Set_property f k v) = ordinarySet ob k v"
| "internal_method ob (Define_property f k d) = validateAndApply ob k d"
| "internal_method ob (Delete_property f k) = ordinaryDelete ob k"

text \<open>What a refused attempt raises.\<close>

definition raised :: "attempt \<Rightarrow> error option" where
  "raised t = (case refusal t of Throws \<Rightarrow> Some TypeError | Quiet \<Rightarrow> None)"

text \<open>An attempt on an object: the exception it raised, if any, and the object after
  it. A refused attempt leaves the object as it was.\<close>

definition attempt_on :: "jsobject \<Rightarrow> attempt \<Rightarrow> error option \<times> jsobject" where
  "attempt_on ob t =
     (case internal_method ob t of
        Some ob' \<Rightarrow> (None, ob')
      | None \<Rightarrow> (raised t, ob))"

definition attempt_at :: "objects \<Rightarrow> addr \<Rightarrow> attempt \<Rightarrow> error option \<times> objects" where
  "attempt_at os a t =
     (if a < length os
      then (case attempt_on (os ! a) t of (r, ob) \<Rightarrow> (r, os[a := ob]))
      else (Some InvalidReference, os))"

text \<open>
  The object an attempt is made on: \<^verbatim>\<open>Ryazi\<close> itself or \<^verbatim>\<open>Ryazi.prototype\<close>
  (reading \<open>.prototype\<close> and finding no object there raises when the attempt is
  made).
\<close>

datatype target = Class_object | Prototype_object

definition target_address :: "objects \<Rightarrow> addr \<Rightarrow> target \<Rightarrow> error + addr" where
  "target_address os c tg =
     (case tg of
        Class_object \<Rightarrow> Inr c
      | Prototype_object \<Rightarrow>
          (case get_property os c ''prototype'' of
             Inl e \<Rightarrow> Inl e
           | Inr (VObject p) \<Rightarrow> Inr p
           | Inr _ \<Rightarrow> Inl TypeError))"

text \<open>The class definition followed by one attempt: the exception raised, if any, and
  the class after it.\<close>

definition Ryazi_then ::
  "variant \<Rightarrow> target \<Rightarrow> attempt \<Rightarrow> error option \<times> (error + (addr \<times> objects))" where
  "Ryazi_then v tg t =
     (case Ryazi v of
        Inl e \<Rightarrow> (Some e, Inl e)
      | Inr (c, os) \<Rightarrow>
          (case target_address os c tg of
             Inl e \<Rightarrow> (Some e, Inr (c, os))
           | Inr a \<Rightarrow> (case attempt_at os a t of (r, os') \<Rightarrow> (r, Inr (c, os')))))"

text \<open>Observing a class: one of its two objects, an own property, the names of its
  members.\<close>

definition object_at :: "error + (addr \<times> objects) \<Rightarrow> target \<Rightarrow> jsobject option" where
  "object_at cls tg =
     (case cls of
        Inl e \<Rightarrow> None
      | Inr (c, os) \<Rightarrow>
          (case target_address os c tg of
             Inl e \<Rightarrow> None
           | Inr a \<Rightarrow> (if a < length os then Some (os ! a) else None)))"


definition members :: "error + (addr \<times> objects) \<Rightarrow> target \<Rightarrow> string list" where
  "members cls tg =
     (case object_at cls tg of None \<Rightarrow> [] | Some ob \<Rightarrow> map fst (props ob))"






subsection \<open>The pipeline as the specification words it\<close>

text \<open>
  The specification describes the decorated operation on sequences of real numbers,
  without a store: flatten the argument list one level deep into a single flat
  sequence, square every element (\<open>x \<rightarrow> x^2\<close>), apply the wrapped operation
  (\<open>x \<rightarrow> x / 2\<close>). An argument is a number or a group of numbers.
\<close>

datatype 'a argument = Single 'a | Group "'a list"

fun spec_flatten :: "'a argument list \<Rightarrow> 'a list" where
  "spec_flatten [] = []"
| "spec_flatten (Single x # as) = x # spec_flatten as"
| "spec_flatten (Group xs # as) = xs @ spec_flatten as"

definition spec_square :: "real list \<Rightarrow> real list" where
  "spec_square xs = map (\<lambda>x. x ^ 2) xs"

definition spec_halve :: "real list \<Rightarrow> real list" where
  "spec_halve xs = map (\<lambda>x. x / 2) xs"

text \<open>The argument that a runtime value stands for in a store.\<close>

definition argument_of :: "store \<Rightarrow> jsval \<Rightarrow> number argument" where
  "argument_of st w =
     (case w of
        Number x \<Rightarrow> Single x
      | ArrayRef a \<Rightarrow> Group (if a < length st then st ! a else []))"

section \<open>Rounding to a double\<close>

lemma two_powi_less_D: "(2::real) powi a < 2 powi b \<Longrightarrow> a < b"
proof (rule ccontr)
  assume less: "(2::real) powi a < 2 powi b" and "\<not> a < b"
  then have "b \<le> a" by simp
  then have "(2::real) powi b \<le> 2 powi a"
    by (intro power_int_increasing) simp_all
  with less show False by simp
qed

lemma binade_from_eq:
  "e0 \<le> e \<Longrightarrow> e \<le> e0 + int k \<Longrightarrow> 2 powi e \<le> m \<Longrightarrow> m < 2 powi (e + 1)
     \<Longrightarrow> binade_from k e0 m = e"
proof (induction k arbitrary: e0)
  case 0
  then show ?case by simp
next
  case (Suc k)
  show ?case
  proof (cases "2 powi (e0 + 1) \<le> m")
    case True
    with Suc.prems(4) have "(2::real) powi (e0 + 1) < 2 powi (e + 1)" by simp
    then have "e0 + 1 < e + 1"
      by (rule two_powi_less_D)
    with Suc.IH [of "e0 + 1"] Suc.prems True show ?thesis by simp
  next
    case False
    with Suc.prems(3) have "(2::real) powi e < 2 powi (e0 + 1)" by simp
    then have "e < e0 + 1"
      by (rule two_powi_less_D)
    with False Suc.prems show ?thesis by simp
  qed
qed

text \<open>The binade is the exponent it is meant to be.\<close>

lemma binade_eq:
  assumes "2 powi e \<le> \<bar>x\<bar>" and "\<bar>x\<bar> < 2 powi (e + 1)" and "- 1022 \<le> e" and "e \<le> 1024"
  shows "binade x = e"
  unfolding binade_def using assms by (intro binade_from_eq) simp_all

lemma binade_from_lower: "e \<le> binade_from k e m"
proof (induction k arbitrary: e)
  case 0
  show ?case by simp
next
  case (Suc k)
  from Suc [of "e + 1"] show ?case by simp
qed

lemma binade_from_start_or_below:
  "binade_from k e m = e \<or> 2 powi (binade_from k e m) \<le> m"
proof (induction k arbitrary: e)
  case 0
  show ?case by simp
next
  case (Suc k)
  show ?case
  proof (cases "2 powi (e + 1) \<le> m")
    case True
    with Suc [of "e + 1"] show ?thesis by auto
  next
    case False
    then show ?thesis by simp
  qed
qed

lemma binade_cases: "binade x = - 1022 \<or> 2 powi (binade x) \<le> \<bar>x\<bar>"
  unfolding binade_def by (rule binade_from_start_or_below)

lemma round_half_even_of_int [simp]: "round_half_even (of_int n) = n"
  by (simp add: round_half_even_def)

lemma round_half_even_zero [simp]: "round_half_even 0 = 0"
  by (simp add: round_half_even_def)

lemma round_half_even_nonneg: "0 \<le> r \<Longrightarrow> 0 \<le> round_half_even r"
  by (auto simp: round_half_even_def)

text \<open>Every \<open>m * 2^e\<close> with \<open>|m| < 2^53\<close> and \<open>-1074 \<le> e \<le> 971\<close> is a double.\<close>

lemma round_double_dyadic:
  assumes m: "\<bar>m\<bar> < 2 ^ 53" and e: "- 1074 \<le> e" "e \<le> 971"
  shows "round_double (of_int m * 2 powi e) = Finite (of_int m * 2 powi e)"
proof -
  define x :: real where "x = of_int m * 2 powi e"
  define E where "E = binade x"
  have absx: "\<bar>x\<bar> = of_int \<bar>m\<bar> * 2 powi e"
    by (simp add: x_def abs_mult)
  have "real_of_int \<bar>m\<bar> < 2 ^ 53"
    using m by (metis of_int_less_numeral_power_cancel_iff)
  then have "\<bar>x\<bar> < 2 ^ 53 * 2 powi e"
    unfolding absx by (intro mult_strict_right_mono) simp_all
  also have "(2::real) ^ 53 * 2 powi e = 2 powi (53 + e)"
    by (simp add: power_int_add)
  finally have upper: "\<bar>x\<bar> < 2 powi (53 + e)" .
  have q: "E - 52 \<le> e"
  proof -
    from binade_cases [of x] consider "E = - 1022" | "2 powi E \<le> \<bar>x\<bar>"
      unfolding E_def by blast
    then show ?thesis
    proof cases
      case 1
      with e show ?thesis by simp
    next
      case 2
      with upper have "(2::real) powi E < 2 powi (53 + e)" by simp
      then have "E < 53 + e" by (rule two_powi_less_D)
      then show ?thesis by simp
    qed
  qed
  define d where "d = nat (e - (E - 52))"
  have de: "e = (E - 52) + int d"
    using q by (simp add: d_def)
  have scaled: "x / 2 powi (E - 52) = of_int (m * 2 ^ d)"
    by (simp add: x_def de power_int_add)
  have unscaled: "real_of_int (m * 2 ^ d) * 2 powi (E - 52) = x"
    by (simp add: x_def de power_int_add)
  have "(2::real) powi (53 + e) \<le> 2 powi 1024"
    using e by (intro power_int_increasing) simp_all
  with upper have small: "\<not> 2 powi 1024 \<le> \<bar>x\<bar>" by simp
  show ?thesis
    unfolding round_double_def x_def [symmetric] E_def [symmetric]
    by (simp only: scaled round_half_even_of_int unscaled small if_False)
qed

lemma is_double_dyadic:
  "\<bar>m\<bar> < 2 ^ 53 \<Longrightarrow> - 1074 \<le> e \<Longrightarrow> e \<le> 971 \<Longrightarrow> is_double (of_int m * 2 powi e)"
  by (simp add: is_double_def round_double_dyadic)

lemma round_double_numeral:
  "(numeral k :: int) < 2 ^ 53 \<Longrightarrow> round_double (numeral k) = Finite (numeral k)"
  using round_double_dyadic [of "numeral k" 0] by simp

lemma round_double_zero: "round_double 0 = Finite 0"
  using round_double_dyadic [of 0 0] by simp

text \<open>Rounding keeps the sign.\<close>

lemma round_double_nonneg:
  assumes "0 \<le> x"
  shows "number_le (Finite 0) (round_double x)"
proof -
  define y where
    "y = real_of_int (round_half_even (x / 2 powi (binade x - 52))) * 2 powi (binade x - 52)"
  have "0 \<le> x / 2 powi (binade x - 52)"
    using assms by simp
  then have "0 \<le> round_half_even (x / 2 powi (binade x - 52))"
    by (rule round_half_even_nonneg)
  then have y: "0 \<le> y"
    by (simp add: y_def)
  have rd: "round_double x =
      (if 2 powi 1024 \<le> \<bar>y\<bar> then (if 0 < x then PosInfinity else NegInfinity) else Finite y)"
    by (simp only: round_double_def y_def)
  show ?thesis
  proof (cases "2 powi 1024 \<le> \<bar>y\<bar>")
    case True
    have "x \<noteq> 0"
    proof
      assume "x = 0"
      then have "y = 0" by (simp add: y_def)
      with True have "(2::real) powi 1024 \<le> 0" by simp
      moreover have "(0::real) < 2 powi 1024" by (rule zero_less_power_int) simp
      ultimately show False by simp
    qed
    with assms have "0 < x" by simp
    with True show ?thesis by (simp only: rd if_True number_le.simps)
  next
    case False
    with y show ?thesis by (simp only: rd if_False number_le.simps)
  qed
qed

lemma halved_square_nonneg:
  assumes "v \<noteq> NaN"
  shows "number_le (Finite 0) (divide_by_2 (Math_pow_2 v))"
proof (cases v)
  case (Finite x)
  have sq: "number_le (Finite 0) (round_double (x * x))"
    by (rule round_double_nonneg) simp
  show ?thesis
  proof (cases "round_double (x * x)")
    case (Finite y)
    with sq have "0 \<le> y / 2" by simp
    then have "number_le (Finite 0) (round_double (y / 2))"
      by (rule round_double_nonneg)
    with Finite \<open>v = Finite x\<close> show ?thesis by simp
  next
    case PosInfinity
    with \<open>v = Finite x\<close> show ?thesis by simp
  next
    case NegInfinity
    with sq show ?thesis by simp
  next
    case NaN
    with sq show ?thesis by simp
  qed
next
  case PosInfinity
  then show ?thesis by simp
next
  case NegInfinity
  then show ?thesis by simp
next
  case NaN
  with assms show ?thesis by simp
qed

text \<open>Where the square and its half are doubles, nothing is rounded.\<close>

lemma halved_square_exact:
  assumes "is_double (x ^ 2)" and "is_double (x ^ 2 / 2)"
  shows "divide_by_2 (Math_pow_2 (Finite x)) = Finite (x ^ 2 / 2)"
  using assms by (simp add: is_double_def power2_eq_square)

text \<open>The square of 94906267 is odd and above \<open>2^53\<close>: it lies half way between two
  doubles and is rounded to the even one.\<close>

lemma square_94906267: "Math_pow_2 (Finite 94906267) = Finite 9007199515875288"
proof -
  have b: "binade (94906267 * 94906267) = 53"
    by (rule binade_eq) simp_all
  have r: "round_half_even (94906267 * 94906267 / 2 powi (53 - 52)) = 4503599757937644"
    by (simp add: round_half_even_def)
  have "round_double (94906267 * 94906267) =
          Finite (real_of_int 4503599757937644 * 2 powi (53 - 52))"
  proof -
    have "\<not> 2 powi 1024 \<le> \<bar>real_of_int 4503599757937644 * 2 powi (53 - 52)\<bar>" by simp
    then show ?thesis
      by (simp only: round_double_def b r if_False)
  qed
  then show ?thesis by simp
qed

lemma halved_square_94906267:
  "divide_by_2 (Math_pow_2 (Finite 94906267)) = Finite 4503599757937644"
proof -
  have "divide_by_2 (Math_pow_2 (Finite 94906267)) = round_double (9007199515875288 / 2)"
    by (simp only: square_94906267 divide_by_2.simps)
  also have "(9007199515875288 / 2 :: real) = 4503599757937644"
    by simp
  also have "round_double 4503599757937644 = Finite 4503599757937644"
    by (rule round_double_numeral) simp
  finally show ?thesis .
qed

section \<open>What the class definition builds\<close>

lemmas object_defs =
  declare_function_def on_object_def assign_def ordinarySet_def getOwnProperty_def
  decorate_member_def Object_getOwnPropertyDescriptor_def square_def Object_defineProperty_def
  defineProperty_def validateAndApply_def rejects_def full_descriptor_def
  apply_descriptor_def decorate_class_def sealed_def Object_seal_def seal_object_def
  get_property_def

lemma Ryazi_undecorated_eq:
  "Ryazi_undecorated = Inr (0,
     [\<lparr> props =
          [(''length'', \<lparr> val = VNumber (Finite 0), writable = False, enumerable = False, configurable = True \<rparr>),
           (''name'', \<lparr> val = VString ''Ryazi'', writable = False, enumerable = False, configurable = True \<rparr>),
           (''arguments'', \<lparr> val = VNull, writable = False, enumerable = False, configurable = False \<rparr>),
           (''caller'', \<lparr> val = VNull, writable = False, enumerable = False, configurable = False \<rparr>),
           (''prototype'', \<lparr> val = VObject 1, writable = True, enumerable = False, configurable = False \<rparr>),
           (''modifyNumbers'', \<lparr> val = VFunction modifyNumbers, writable = True, enumerable = True, configurable = True \<rparr>)],
         extensible = True \<rparr>,
      \<lparr> props =
          [(''constructor'', \<lparr> val = VObject 0, writable = True, enumerable = False, configurable = True \<rparr>)],
         extensible = True \<rparr>])"
  by (simp add: Ryazi_undecorated_def object_defs)

text \<open>After \<^verbatim>\<open>__decorate([square], Ryazi, "modifyNumbers", null)\<close> the member holds
  the wrapper around the original function; nothing else changed.\<close>

lemma Ryazi_squared_eq:
  "Ryazi_squared = Inr (0,
     [\<lparr> props =
          [(''length'', \<lparr> val = VNumber (Finite 0), writable = False, enumerable = False, configurable = True \<rparr>),
           (''name'', \<lparr> val = VString ''Ryazi'', writable = False, enumerable = False, configurable = True \<rparr>),
           (''arguments'', \<lparr> val = VNull, writable = False, enumerable = False, configurable = False \<rparr>),
           (''caller'', \<lparr> val = VNull, writable = False, enumerable = False, configurable = False \<rparr>),
           (''prototype'', \<lparr> val = VObject 1, writable = True, enumerable = False, configurable = False \<rparr>),
           (''modifyNumbers'', \<lparr> val = VFunction (square_wrapper (VFunction modifyNumbers)),
               writable = True, enumerable = True, configurable = True \<rparr>)],
         extensible = True \<rparr>,
      \<lparr> props =
          [(''constructor'', \<lparr> val = VObject 0, writable = True, enumerable = False, configurable = True \<rparr>)],
         extensible = True \<rparr>])"
  by (simp add: Ryazi_squared_def Ryazi_undecorated_eq object_defs)

text \<open>After \<^verbatim>\<open>Ryazi = __decorate([sealed], Ryazi)\<close> both objects are not extensible
  and no property is configurable; the values and \<open>writable\<close> are as before.\<close>

lemma Ryazi_Emitted_JS_eq:
  "Ryazi Emitted_JS = Inr (0,
     [\<lparr> props =
          [(''length'', \<lparr> val = VNumber (Finite 0), writable = False, enumerable = False, configurable = False \<rparr>),
           (''name'', \<lparr> val = VString ''Ryazi'', writable = False, enumerable = False, configurable = False \<rparr>),
           (''arguments'', \<lparr> val = VNull, writable = False, enumerable = False, configurable = False \<rparr>),
           (''caller'', \<lparr> val = VNull, writable = False, enumerable = False, configurable = False \<rparr>),
           (''prototype'', \<lparr> val = VObject 1, writable = True, enumerable = False, configurable = False \<rparr>),
           (''modifyNumbers'', \<lparr> val = VFunction (square_wrapper (VFunction modifyNumbers)),
               writable = True, enumerable = True, configurable = False \<rparr>)],
         extensible = False \<rparr>,
      \<lparr> props =
          [(''constructor'', \<lparr> val = VObject 0, writable = True, enumerable = False, configurable = False \<rparr>)],
         extensible = False \<rparr>])"
  by (simp add: Ryazi_def Ryazi_squared_eq object_defs)

lemma Ryazi_Source_TS_eq: "Ryazi Source_TS = Ryazi_squared"
  by (simp add: Ryazi_def Ryazi_squared_eq)

text \<open>In both variants \<^verbatim>\<open>Ryazi.modifyNumbers\<close> is the wrapper that \<open>square\<close> built
  around the original function.\<close>

lemma Ryazi_modifyNumbers_eq:
  "Ryazi_modifyNumbers v = square_wrapper (VFunction modifyNumbers)"
  by (cases v; rule ext; rule ext)
     (simp_all add: Ryazi_modifyNumbers_def Ryazi_Emitted_JS_eq Ryazi_Source_TS_eq
       Ryazi_squared_eq call_static_def call_method_def get_property_def getOwnProperty_def
       call_value_def)

section \<open>The call on well-formed arguments\<close>

lemma flat_valid:
  "list_all (valid_arg st) args \<Longrightarrow> flat st args = Inr (concat (map (elements st) args))"
  by (induction st args rule: flat.induct) (simp_all add: valid_arg_def elements_def)

text \<open>The call constructs three arrays, the flattened, the squared and the halved
  one, at the end of the store, and returns the address of the last.\<close>

lemma wrapper_valid:
  assumes "list_all (valid_arg st) args"
  shows "square_wrapper (VFunction modifyNumbers) st args =
    (Inr (ArrayRef (length st + 2)),
     st @ [concat (map (elements st) args),
           map Math_pow_2 (concat (map (elements st) args)),
           map divide_by_2 (map Math_pow_2 (concat (map (elements st) args)))])"
  using assms
  by (simp add: square_wrapper_def args_flat_def flat_valid alloc_def array_map_def
      call_value_def modifyNumbers_def nth_append)

lemma Ryazi_modifyNumbers_valid:
  assumes "list_all (valid_arg st) args"
  shows "Ryazi_modifyNumbers v st args =
    (Inr (ArrayRef (length st + 2)),
     st @ [concat (map (elements st) args),
           map Math_pow_2 (concat (map (elements st) args)),
           map divide_by_2 (map Math_pow_2 (concat (map (elements st) args)))])"
  by (simp add: Ryazi_modifyNumbers_eq wrapper_valid [OF assms])

lemma returned_array_valid:
  assumes "list_all (valid_arg st) args"
  shows "returned_array (Ryazi_modifyNumbers v st args) =
     Some (map divide_by_2 (map Math_pow_2 (concat (map (elements st) args))))"
  by (simp add: Ryazi_modifyNumbers_valid [OF assms] returned_array_def nth_append)

lemma spec_flatten_argument_of:
  "spec_flatten (map (argument_of st) args) = concat (map (elements st) args)"
proof (induction args)
  case Nil
  show ?case by simp
next
  case (Cons w ws)
  then show ?case
    by (cases w) (simp_all add: argument_of_def elements_def)
qed

lemma returned_array_single:
  assumes "a < length st"
  shows "returned_array (Ryazi_modifyNumbers v st [ArrayRef a]) =
     Some (map divide_by_2 (map Math_pow_2 (st ! a)))"
  using assms by (simp add: returned_array_valid valid_arg_def elements_def)

lemma returned_94906267:
  "returned_array (Ryazi_modifyNumbers v [[Finite 94906267]] [ArrayRef 0])
     = Some [Finite 4503599757937644]"
proof -
  have "returned_array (Ryazi_modifyNumbers v [[Finite 94906267]] [ArrayRef 0])
     = Some (map divide_by_2 (map Math_pow_2 ([[Finite 94906267]] ! 0)))"
    by (rule returned_array_single) simp
  also have "\<dots> = Some [divide_by_2 (Math_pow_2 (Finite 94906267))]"
    by (simp only: nth_Cons_0 list.map)
  finally show ?thesis
    by (simp only: halved_square_94906267)
qed

section \<open>Attempts on a sealed object\<close>







section \<open>Attempts on the sealed class\<close>





text \<open>The class of the TypeScript source is not sealed: the same assignment adds the
  member.\<close>

lemma unsealed_class_accepts_member:
  "members (snd (Ryazi_then Source_TS Class_object
       (Set_property Quiet ''halve'' (VFunction modifyNumbers)))) Class_object
     = [''length'', ''name'', ''arguments'', ''caller'', ''prototype'', ''modifyNumbers'', ''halve'']"
  by (simp add: Ryazi_then_def Ryazi_Source_TS_eq Ryazi_squared_eq target_address_def
      attempt_at_def attempt_on_def ordinarySet_def getOwnProperty_def members_def object_at_def)

text \<open>Small values on which nothing is rounded.\<close>

lemma small_values:
  "Math_pow_2 (Finite 2) = Finite 4" "Math_pow_2 (Finite 3) = Finite 9"
  "Math_pow_2 (Finite 4) = Finite 16" "Math_pow_2 (Finite 5) = Finite 25"
  "Math_pow_2 (Finite (9 / 2)) = Finite (81 / 4)" "Math_pow_2 (Finite 8) = Finite 64"
  "divide_by_2 (Finite 4) = Finite 2" "divide_by_2 (Finite 9) = Finite (9 / 2)"
  "divide_by_2 (Finite 16) = Finite 8" "divide_by_2 (Finite 25) = Finite (25 / 2)"
  "divide_by_2 (Finite (81 / 4)) = Finite (81 / 8)" "divide_by_2 (Finite 64) = Finite 32"
  using round_double_dyadic [of 9 "- 1"] round_double_dyadic [of 25 "- 1"]
    round_double_dyadic [of 81 "- 2"] round_double_dyadic [of 81 "- 3"]
  by (simp_all add: round_double_numeral)


section \<open>The claims\<close>

text \<open>
  C1, as the claim states it, fails: it equates the \<open>i\<close>-th element of the result
  with the real number \<open>S[i]^2 / 2\<close>. The number 94906267 is a double; its square
  9007199515875289 is odd and above \<open>2^53\<close>, so it is no double and
  \<^verbatim>\<open>Math.pow\<close> returns a neighbour, and the call returns 4503599757937644, which is
  not 9007199515875289 / 2.
\<close>

theorem modifyNumbers_elementwise_not_exact:
  "is_double 94906267
   \<and> returned_array (Ryazi_modifyNumbers Emitted_JS [[Finite 94906267]] [ArrayRef 0])
       = Some [Finite 4503599757937644]
   \<and> (4503599757937644 :: real) \<noteq> 94906267 ^ 2 / 2"
proof -
  have "is_double 94906267"
    unfolding is_double_def by (rule round_double_numeral) simp
  then show ?thesis
    by (simp add: returned_94906267)
qed

text \<open>
  C1, amended. For every sequence \<open>S\<close> of real numbers (the array at address \<open>a\<close> of
  any store, its \<open>i\<close>-th element being the double \<open>x\<close>), the call
  \<open>Ryazi.modifyNumbers(S)\<close> returns an array whose \<open>i\<close>-th element is \<open>x^2 / 2\<close> as
  double arithmetic computes it: the square rounded to the nearest double, then its
  half rounded to the nearest double. It is the real number \<open>x^2 / 2\<close> whenever
  \<open>x^2\<close> and \<open>x^2 / 2\<close> are doubles. This holds in both variants of the class.
\<close>

theorem modifyNumbers_elementwise:
  assumes "a < length st" and "i < length (st ! a)"
    and "st ! a ! i = Finite x" and "is_double x"
  shows "\<exists>ys. returned_array (Ryazi_modifyNumbers v st [ArrayRef a]) = Some ys
          \<and> i < length ys
          \<and> ys ! i = divide_by_2 (round_double (x ^ 2))
          \<and> (is_double (x ^ 2) \<and> is_double (x ^ 2 / 2) \<longrightarrow> ys ! i = Finite (x ^ 2 / 2))"
proof -
  have "returned_array (Ryazi_modifyNumbers v st [ArrayRef a]) =
          Some (map divide_by_2 (map Math_pow_2 (st ! a)))"
    using assms(1) by (rule returned_array_single)
  moreover have "map divide_by_2 (map Math_pow_2 (st ! a)) ! i
                   = divide_by_2 (Math_pow_2 (Finite x))"
    using assms(2,3) by (simp del: Math_pow_2.simps divide_by_2.simps)
  moreover have "Math_pow_2 (Finite x) = round_double (x ^ 2)"
    by (simp add: power2_eq_square)
  moreover have "is_double (x ^ 2) \<and> is_double (x ^ 2 / 2) \<longrightarrow>
                   divide_by_2 (Math_pow_2 (Finite x)) = Finite (x ^ 2 / 2)"
    using halved_square_exact by blast
  ultimately show ?thesis
    using assms(2) by (simp del: Math_pow_2.simps divide_by_2.simps)
qed

theorem modifyNumbers_elementwise_witness:
  "\<exists>ys. returned_array (Ryazi_modifyNumbers Emitted_JS [[Finite 2, Finite 3, Finite 4]] [ArrayRef 0])
           = Some ys
          \<and> 1 < length ys \<and> ys ! 1 = Finite (9 / 2)"
proof -
  have d0: "is_double 3"
    using is_double_dyadic [of 3 0] by simp
  have d1: "is_double (3 ^ 2)"
    using is_double_dyadic [of 9 0] by simp
  have d2: "is_double (3 ^ 2 / 2)"
    using is_double_dyadic [of 9 "- 1"] by simp
  from modifyNumbers_elementwise [of 0 "[[Finite 2, Finite 3, Finite 4]]" 1 3 Emitted_JS] d0 d1 d2
  show ?thesis by auto
qed

text \<open>
  C2, as the claim states it, fails where it equates the result with the three steps
  of the specification, squaring and halving being operations on real numbers: for
  the argument list \<open>[[94906267]]\<close> these give \<open>[9007199515875289 / 2]\<close>, and the
  call returns \<open>[4503599757937644]\<close>.
\<close>

theorem modifyNumbers_real_pipeline_differs:
  "returned_array (Ryazi_modifyNumbers Emitted_JS [[Finite 94906267]] [ArrayRef 0])
       = Some [Finite 4503599757937644]
   \<and> map Finite (spec_halve (spec_square (spec_flatten [Group [94906267]])))
       = [Finite (9007199515875289 / 2)]
   \<and> returned_array (Ryazi_modifyNumbers Emitted_JS [[Finite 94906267]] [ArrayRef 0])
       \<noteq> Some (map Finite (spec_halve (spec_square (spec_flatten [Group [94906267]]))))"
  by (simp add: returned_94906267 spec_halve_def spec_square_def)

text \<open>
  C2, amended. The decorated operation is the composition of three steps in this
  order: flatten the collected argument list one level deep, square every element,
  then invoke the original halving function on the squared values, where squaring and
  halving are the double operations \<^verbatim>\<open>Math.pow(x, 2)\<close> and \<^verbatim>\<open>x / 2\<close> (each
  rounded to the nearest double). For every well-formed argument list the returned
  array holds \<open>halve (square (flatten args))\<close> in that arithmetic, and the call is
  the original function invoked on the squared array, in the store where the wrapper
  has constructed the flattened and the squared array.
\<close>

theorem modifyNumbers_is_halve_square_flatten:
  assumes "list_all (valid_arg st) args"
  shows "returned_array (Ryazi_modifyNumbers v st args) =
           Some (map divide_by_2 (map Math_pow_2 (spec_flatten (map (argument_of st) args))))
       \<and> Ryazi_modifyNumbers v st args =
           modifyNumbers
             (st @ [spec_flatten (map (argument_of st) args),
                    map Math_pow_2 (spec_flatten (map (argument_of st) args))])
             [ArrayRef (Suc (length st))]"
proof
  show "returned_array (Ryazi_modifyNumbers v st args) =
           Some (map divide_by_2 (map Math_pow_2 (spec_flatten (map (argument_of st) args))))"
    by (simp add: returned_array_valid [OF assms] spec_flatten_argument_of)
  show "Ryazi_modifyNumbers v st args =
           modifyNumbers
             (st @ [spec_flatten (map (argument_of st) args),
                    map Math_pow_2 (spec_flatten (map (argument_of st) args))])
             [ArrayRef (Suc (length st))]"
    by (simp add: Ryazi_modifyNumbers_valid [OF assms] modifyNumbers_def array_map_def
        alloc_def nth_append spec_flatten_argument_of)
qed

theorem modifyNumbers_is_halve_square_flatten_witness:
  "returned_array
     (Ryazi_modifyNumbers Emitted_JS [[Finite 2, Finite 3], [Finite 4]]
        [ArrayRef 0, Number (Finite 5), ArrayRef 1]) =
     Some [Finite 2, Finite (9 / 2), Finite (25 / 2), Finite 8]"
proof -
  have v: "list_all (valid_arg [[Finite 2, Finite 3], [Finite 4]])
             [ArrayRef 0, Number (Finite 5), ArrayRef 1]"
    by (simp add: valid_arg_def)
  have "returned_array
     (Ryazi_modifyNumbers Emitted_JS [[Finite 2, Finite 3], [Finite 4]]
        [ArrayRef 0, Number (Finite 5), ArrayRef 1]) =
     Some (map divide_by_2 (map Math_pow_2 (spec_flatten
       (map (argument_of [[Finite 2, Finite 3], [Finite 4]])
          [ArrayRef 0, Number (Finite 5), ArrayRef 1]))))"
    using modifyNumbers_is_halve_square_flatten [OF v, of Emitted_JS] by (rule conjunct1)
  then show ?thesis
    by (simp add: argument_of_def small_values del: Math_pow_2.simps divide_by_2.simps)
qed

text \<open>
  C3. For every sequence \<open>S\<close> of numbers, the array that \<open>Ryazi.modifyNumbers(S)\<close>
  returns has the length of \<open>S\<close>.
\<close>

theorem modifyNumbers_length:
  assumes "a < length st"
  shows "\<exists>ys. returned_array (Ryazi_modifyNumbers v st [ArrayRef a]) = Some ys
          \<and> length ys = length (st ! a)"
  using assms by (simp add: returned_array_single)

theorem modifyNumbers_length_witness:
  "\<exists>ys. returned_array (Ryazi_modifyNumbers Source_TS [[Finite 2, Finite 3, Finite 4]] [ArrayRef 0])
           = Some ys
          \<and> length ys = length ([[Finite 2, Finite 3, Finite 4]] ! 0)"
  using modifyNumbers_length [of 0 "[[Finite 2, Finite 3, Finite 4]]" Source_TS] by simp




text \<open>
  C5. \<open>modifyNumbers\<close> is not idempotent: \<open>modifyNumbers(modifyNumbers([2, 3, 4]))\<close>
  returns \<open>[2, 10.125, 32]\<close>, and \<open>modifyNumbers([2, 3, 4])\<close> returns \<open>[2, 4.5, 8]\<close>.
\<close>

theorem modifyNumbers_not_idempotent:
  "returned_array
     (then_call (Ryazi_modifyNumbers v [[Finite 2, Finite 3, Finite 4]] [ArrayRef 0])
        (Ryazi_modifyNumbers v))
     = Some [Finite 2, Finite (81 / 8), Finite 32]
   \<and> returned_array (Ryazi_modifyNumbers v [[Finite 2, Finite 3, Finite 4]] [ArrayRef 0])
     = Some [Finite 2, Finite (9 / 2), Finite 8]
   \<and> returned_array
     (then_call (Ryazi_modifyNumbers v [[Finite 2, Finite 3, Finite 4]] [ArrayRef 0])
        (Ryazi_modifyNumbers v))
     \<noteq> returned_array (Ryazi_modifyNumbers v [[Finite 2, Finite 3, Finite 4]] [ArrayRef 0])"
proof -
  have v0: "list_all (valid_arg [[Finite 2, Finite 3, Finite 4]]) [ArrayRef 0]"
    by (simp add: valid_arg_def)
  have once: "Ryazi_modifyNumbers v [[Finite 2, Finite 3, Finite 4]] [ArrayRef 0] =
      (Inr (ArrayRef 3),
       [[Finite 2, Finite 3, Finite 4], [Finite 2, Finite 3, Finite 4],
        [Finite 4, Finite 9, Finite 16], [Finite 2, Finite (9 / 2), Finite 8]])"
    by (simp add: Ryazi_modifyNumbers_valid [OF v0] elements_def small_values
        del: Math_pow_2.simps divide_by_2.simps)
  have v1: "list_all
      (valid_arg [[Finite 2, Finite 3, Finite 4], [Finite 2, Finite 3, Finite 4],
                  [Finite 4, Finite 9, Finite 16], [Finite 2, Finite (9 / 2), Finite 8]])
      [ArrayRef 3]"
    by (simp add: valid_arg_def)
  have twice: "returned_array
     (then_call (Ryazi_modifyNumbers v [[Finite 2, Finite 3, Finite 4]] [ArrayRef 0])
        (Ryazi_modifyNumbers v))
     = Some [Finite 2, Finite (81 / 8), Finite 32]"
    by (simp add: once then_call_def returned_array_valid [OF v1] elements_def small_values
        del: Math_pow_2.simps divide_by_2.simps)
  have one: "returned_array (Ryazi_modifyNumbers v [[Finite 2, Finite 3, Finite 4]] [ArrayRef 0])
     = Some [Finite 2, Finite (9 / 2), Finite 8]"
    by (simp add: once returned_array_def)
  show ?thesis
    by (simp add: twice one)
qed

text \<open>
  C6. \<open>modifyNumbers\<close> is deterministic and pure. Two calls, in any two stores, whose
  argument lists stand for the same inputs return arrays with the same elements: the
  result depends on the arguments only. A call changes no array that existed before
  it: the store after the call is the store before it with new arrays appended, and
  the returned address is one of the new arrays.
\<close>

theorem modifyNumbers_pure:
  assumes "list_all (valid_arg st1) args1" and "list_all (valid_arg st2) args2"
    and "map (argument_of st1) args1 = map (argument_of st2) args2"
  shows "returned_array (Ryazi_modifyNumbers v st1 args1)
           = returned_array (Ryazi_modifyNumbers v st2 args2)
       \<and> (\<exists>r new. Ryazi_modifyNumbers v st1 args1 = (Inr (ArrayRef r), st1 @ new)
             \<and> length st1 \<le> r \<and> r < length (st1 @ new))"
proof -
  have "concat (map (elements st1) args1) = concat (map (elements st2) args2)"
    using assms(3) spec_flatten_argument_of by metis
  then have "returned_array (Ryazi_modifyNumbers v st1 args1)
           = returned_array (Ryazi_modifyNumbers v st2 args2)"
    by (simp add: returned_array_valid [OF assms(1)] returned_array_valid [OF assms(2)])
  moreover have "\<exists>r new. Ryazi_modifyNumbers v st1 args1 = (Inr (ArrayRef r), st1 @ new)
             \<and> length st1 \<le> r \<and> r < length (st1 @ new)"
    by (simp add: Ryazi_modifyNumbers_valid [OF assms(1)])
  ultimately show ?thesis by simp
qed

theorem modifyNumbers_pure_witness:
  "returned_array (Ryazi_modifyNumbers Emitted_JS [[Finite 2, Finite 3, Finite 4]] [ArrayRef 0])
     = returned_array
         (Ryazi_modifyNumbers Emitted_JS [[Finite 1], [Finite 2, Finite 3, Finite 4]] [ArrayRef 1])"
proof -
  have v1: "list_all (valid_arg [[Finite 2, Finite 3, Finite 4]]) [ArrayRef 0]"
    by (simp add: valid_arg_def)
  have v2: "list_all (valid_arg [[Finite 1], [Finite 2, Finite 3, Finite 4]]) [ArrayRef 1]"
    by (simp add: valid_arg_def)
  have same: "map (argument_of [[Finite 2, Finite 3, Finite 4]]) [ArrayRef 0]
                = map (argument_of [[Finite 1], [Finite 2, Finite 3, Finite 4]]) [ArrayRef 1]"
    by (simp add: argument_of_def)
  show ?thesis
    using modifyNumbers_pure [OF v1 v2 same, of Emitted_JS] by (rule conjunct1)
qed

text \<open>
  C7. \<open>modifyNumbers\<close> is total on numeric input: for every store and every
  well-formed argument list (in particular one array of numbers of any length, the
  empty one included) the call returns an array and raises nothing. Every function of
  the model is a total recursive function, so the call terminates.
\<close>

theorem modifyNumbers_total:
  assumes "list_all (valid_arg st) args"
  shows "\<exists>r st'. Ryazi_modifyNumbers v st args = (Inr (ArrayRef r), st')"
  by (simp add: Ryazi_modifyNumbers_valid [OF assms])

theorem modifyNumbers_total_witness:
  "\<exists>r st'. Ryazi_modifyNumbers Source_TS [[]] [ArrayRef 0] = (Inr (ArrayRef r), st')"
proof -
  have v: "list_all (valid_arg [[]]) [ArrayRef 0]"
    by (simp add: valid_arg_def)
  show ?thesis
    using modifyNumbers_total [OF v, of Source_TS] .
qed

text \<open>
  C8. Called with the empty sequence, \<open>modifyNumbers\<close> returns the empty sequence.
\<close>

theorem modifyNumbers_empty:
  assumes "a < length st" and "st ! a = []"
  shows "returned_array (Ryazi_modifyNumbers v st [ArrayRef a]) = Some []"
  using assms by (simp add: returned_array_single)

theorem modifyNumbers_empty_witness:
  "returned_array (Ryazi_modifyNumbers Emitted_JS [[]] [ArrayRef 0]) = Some []"
  using modifyNumbers_empty [of 0 "[[]]" Emitted_JS] by simp

text \<open>
  C9. \<open>modifyNumbers\<close> does not mutate its argument: after the call the array at the
  argument's address holds what it held before (as does every array of the store
  before the call), and the result is a newly constructed array, at an address that
  was not in use before the call.
\<close>

theorem modifyNumbers_keeps_argument:
  assumes "a < length st"
  shows "snd (Ryazi_modifyNumbers v st [ArrayRef a]) ! a = st ! a
       \<and> take (length st) (snd (Ryazi_modifyNumbers v st [ArrayRef a])) = st
       \<and> (\<exists>r. fst (Ryazi_modifyNumbers v st [ArrayRef a]) = Inr (ArrayRef r)
             \<and> length st \<le> r \<and> r < length (snd (Ryazi_modifyNumbers v st [ArrayRef a])))"
proof -
  have "list_all (valid_arg st) [ArrayRef a]"
    using assms by (simp add: valid_arg_def)
  from Ryazi_modifyNumbers_valid [OF this, of v] assms show ?thesis
    by (simp add: nth_append)
qed

theorem modifyNumbers_keeps_argument_witness:
  "snd (Ryazi_modifyNumbers Emitted_JS [[Finite 2, Finite 3, Finite 4]] [ArrayRef 0]) ! 0
     = [Finite 2, Finite 3, Finite 4]
   \<and> fst (Ryazi_modifyNumbers Emitted_JS [[Finite 2, Finite 3, Finite 4]] [ArrayRef 0])
     = Inr (ArrayRef 3)"
proof -
  have v: "list_all (valid_arg [[Finite 2, Finite 3, Finite 4]]) [ArrayRef 0]"
    by (simp add: valid_arg_def)
  have "fst (Ryazi_modifyNumbers Emitted_JS [[Finite 2, Finite 3, Finite 4]] [ArrayRef 0])
      = Inr (ArrayRef 3)"
    by (simp add: Ryazi_modifyNumbers_valid [OF v])
  then show ?thesis
    using modifyNumbers_keeps_argument [of 0 "[[Finite 2, Finite 3, Finite 4]]" Emitted_JS] by simp
qed

text \<open>
  C10. Every element of the array that \<open>modifyNumbers(S)\<close> returns is non-negative
  (\<^verbatim>\<open>0 <= y\<close> holds of it), whatever the sign of the element of \<open>S\<close> it comes
  from, as long as that element is a number and not NaN. The results include
  \<open>Infinity\<close>, which a square that overflows becomes.
\<close>

theorem modifyNumbers_nonnegative:
  assumes "a < length st" and "i < length (st ! a)" and "st ! a ! i \<noteq> NaN"
  shows "\<exists>ys. returned_array (Ryazi_modifyNumbers v st [ArrayRef a]) = Some ys
          \<and> i < length ys \<and> number_le (Finite 0) (ys ! i)"
  using assms by (simp add: returned_array_single halved_square_nonneg)

theorem modifyNumbers_nonnegative_witness:
  "\<exists>ys. returned_array (Ryazi_modifyNumbers Emitted_JS [[Finite (- 2)]] [ArrayRef 0]) = Some ys
          \<and> 0 < length ys \<and> number_le (Finite 0) (ys ! 0)"
  using modifyNumbers_nonnegative [of 0 "[[Finite (- 2)]]" 0 Emitted_JS] by simp

end
